theory Spec2Isabelle
  imports Main
begin

section \<open>The native layer as seen from wrap\_libusb.hpp\<close>

text \<open>
  The wrapper only ever calls the native USB library; it never looks inside it. The
  model therefore records every native call and every log line in a chronological
  trace, and takes the answers of the native library from a parameter \<open>N\<close>: the
  return code of a call (which may depend on everything that happened before), the
  text the library gives for an error code, and what it writes through an out-pointer.
  The text the C++ runtime gives for an error code of \<open>std::system_category()\<close> is a
  parameter too.

  A raw pointer is \<open>None\<close> for \<open>nullptr\<close> and \<open>Some a\<close> for the address \<open>a\<close>.
  Interface numbers and the return codes of all native functions but one are C
  \<open>int\<close>s; the wrapper only compares them with zero and stores them, so they are
  modelled as \<open>int\<close>. The enumeration \<open>libusb_get_device_list\<close> returns a \<open>ssize_t\<close>,
  which the wrapper converts to \<open>int\<close> before it decodes or throws it.
\<close>

type_synonym pointer = "nat option"

text \<open>The severities of the logging sink (declared outside this file).\<close>

datatype mvLog_t = MVLOG_DEBUG | MVLOG_INFO | MVLOG_WARN | MVLOG_ERROR | MVLOG_FATAL

datatype native_call =
    Libusb_get_device_list pointer
  | Libusb_free_device_list pointer int
  | Libusb_open pointer
  | Libusb_close pointer
  | Libusb_claim_interface pointer int
  | Libusb_release_interface pointer int
  | Libusb_ref_device pointer
  | Libusb_unref_device pointer

text \<open>
  An event is a native call together with the code it returned (0 for the calls that
  return no code), or one call of \<open>logprintf\<close> with severity, originating function,
  line number and formatted message.
\<close>

datatype event =
    Call native_call int
  | Log mvLog_t string int string

type_synonym world = "event list"

record native =
  returns :: "world \<Rightarrow> native_call \<Rightarrow> int"
  libusb_strerror :: "int \<Rightarrow> string"
  out_pointer :: "world \<Rightarrow> native_call \<Rightarrow> pointer"
  memory :: "pointer \<Rightarrow> nat \<Rightarrow> pointer"
  category_message :: "int \<Rightarrow> string"

fun event_calls :: "event \<Rightarrow> native_call list" where
  "event_calls (Call c rc) = [c]"
| "event_calls (Log l f n m) = []"

fun event_logs :: "event \<Rightarrow> event list" where
  "event_logs (Call c rc) = []"
| "event_logs (Log l f n m) = [Log l f n m]"

text \<open>The native calls of a trace, in the order they were made, and its log lines.\<close>

definition calls :: "world \<Rightarrow> native_call list" where
  "calls t = concat (map event_calls t)"

definition logged :: "world \<Rightarrow> event list" where
  "logged t = concat (map event_logs t)"

section \<open>Errors\<close>

text \<open>
  \<open>usb_error\<close> is a \<open>std::system_error\<close> built from the native code, in the category
  \<open>std::system_category()\<close>, and a text; the one-argument constructor takes the text
  from \<open>libusb_strerror\<close>. An error value holds the two constructor arguments. Its
  description is \<open>what()\<close>, which for a \<open>std::system_error\<close> is the text, a colon and a
  space, and the message of the category for the code.
  \<open>std::out_of_range\<close> is the other exception this file throws.
\<close>

datatype error =
    Usb_error int string
  | Out_of_range string



definition usb_error :: "native \<Rightarrow> int \<Rightarrow> error" where
  "usb_error N libusbErrorCode = Usb_error libusbErrorCode (libusb_strerror N libusbErrorCode)"

fun throw_conditional :: "native \<Rightarrow> int \<Rightarrow> bool \<Rightarrow> error option" where
  "throw_conditional N errCode True = Some (usb_error N errCode)"
| "throw_conditional N errCode False = None"

section \<open>Checked invocation\<close>

definition logprintf :: "mvLog_t \<Rightarrow> string \<Rightarrow> int \<Rightarrow> string \<Rightarrow> world \<Rightarrow> world" where
  "logprintf lvl func line msg t = t @ [Log lvl func line msg]"

definition failure_message :: "native \<Rightarrow> string \<Rightarrow> int \<Rightarrow> string" where
  "failure_message N func_within rcNum =
     ''dai::libusb failed '' @ func_within @ ''(): '' @ libusb_strerror N rcNum"

text \<open>
  \<open>rcNum\<close> has the return type of the native function: \<open>ssize_t\<close> for the enumeration,
  \<open>int\<close> for every other call. \<open>static_cast<int>(rcNum)\<close> is the identity on an \<open>int\<close>
  and keeps the low 32 bits of a 64-bit \<open>ssize_t\<close>, read as a signed number.
\<close>

fun returns_ssize_t :: "native_call \<Rightarrow> bool" where
  "returns_ssize_t (Libusb_get_device_list context) = True"
| "returns_ssize_t func = False"

definition static_cast_int :: "native_call \<Rightarrow> int \<Rightarrow> int" where
  "static_cast_int func rcNum =
     (if returns_ssize_t func then (rcNum + 2147483648) mod 4294967296 - 2147483648 else rcNum)"

text \<open>
  \<open>call_log_throw<Loglevel, Throw>(func_within, line_number, func, args...)\<close>: the native
  function and its arguments are one \<open>native_call\<close>. The decoded text of the log line
  and the thrown error are both built from the converted code; the value returned is
  \<open>rcNum\<close> itself.
\<close>

definition call_log_throw ::
  "native \<Rightarrow> mvLog_t \<Rightarrow> bool \<Rightarrow> string \<Rightarrow> int \<Rightarrow> native_call \<Rightarrow> world \<Rightarrow> (error + int) \<times> world" where
  "call_log_throw N Loglevel Throw func_within line_number func t =
     (let rcNum = returns N t func;
          t1 = t @ [Call func rcNum]
      in if rcNum < 0 then
           (let t2 = logprintf Loglevel func_within line_number
                       (failure_message N func_within (static_cast_int func rcNum)) t1
            in case throw_conditional N (static_cast_int func rcNum) Throw of
                 Some e \<Rightarrow> (Inl e, t2)
               | None \<Rightarrow> (Inr rcNum, t2))
         else (Inr rcNum, t1))"

section \<open>Scoped resource: \<open>unique_resource_ptr\<close>\<close>

text \<open>
  \<open>unique_resource_ptr<Resource, Dispose>\<close> is a \<open>std::unique_ptr\<close> whose deleter calls
  \<open>Dispose\<close> on a non-null pointer. Its state is the owned pointer; \<open>Dispose\<close> is the
  native call that releases it. None of the disposers returns a code.
\<close>

definition unique_resource_deleter :: "(pointer \<Rightarrow> native_call) \<Rightarrow> pointer \<Rightarrow> world \<Rightarrow> world" where
  "unique_resource_deleter Dispose p t = (if p \<noteq> None then t @ [Call (Dispose p) 0] else t)"

text \<open>\<open>std::unique_ptr::reset(p)\<close>: store \<open>p\<close>, then delete the old pointer if it is not null.\<close>

definition base_reset :: "(pointer \<Rightarrow> native_call) \<Rightarrow> pointer \<Rightarrow> pointer \<Rightarrow> world \<Rightarrow> pointer \<times> world" where
  "base_reset Dispose p owned t =
     (p, if owned \<noteq> None then unique_resource_deleter Dispose owned t else t)"

text \<open>\<open>std::unique_ptr::release()\<close>: hand the pointer out and own nothing.\<close>

definition base_release :: "pointer \<Rightarrow> pointer \<times> pointer" where
  "base_release owned = (owned, None)"

text \<open>\<open>std::unique_ptr::~unique_ptr()\<close>: delete the owned pointer if it is not null.\<close>

definition base_dtor :: "(pointer \<Rightarrow> native_call) \<Rightarrow> pointer \<Rightarrow> world \<Rightarrow> world" where
  "base_dtor Dispose owned t =
     (if owned \<noteq> None then unique_resource_deleter Dispose owned t else t)"

section \<open>Device list\<close>

record device_list =
  countDevices :: nat
  deviceList :: pointer

definition device_list_default :: device_list where
  "device_list_default = \<lparr>countDevices = 0, deviceList = None\<rparr>"

text \<open>
  \<open>explicit device_list(libusb_context* context)\<close>: the native enumeration returns the
  number of devices, or a negative code, and writes the array through the out-pointer.
\<close>

definition device_list_ctor :: "native \<Rightarrow> pointer \<Rightarrow> world \<Rightarrow> (error + device_list) \<times> world" where
  "device_list_ctor N context t =
     (case call_log_throw N MVLOG_ERROR True ''device_list'' 151 (Libusb_get_device_list context) t of
        (Inl e, t') \<Rightarrow> (Inl e, t')
      | (Inr rc, t') \<Rightarrow>
          (Inr \<lparr>countDevices = nat rc,
                deviceList = out_pointer N t (Libusb_get_device_list context)\<rparr>, t'))"

definition device_list_dtor :: "device_list \<Rightarrow> world \<Rightarrow> world" where
  "device_list_dtor l t =
     (if deviceList l \<noteq> None then t @ [Call (Libusb_free_device_list (deviceList l) 1) 0] else t)"

definition device_list_size :: "device_list \<Rightarrow> nat" where
  "device_list_size l = countDevices l"

definition device_list_empty :: "device_list \<Rightarrow> bool" where
  "device_list_empty l = (countDevices l = 0)"

text \<open>
  \<open>at(index)\<close>: the bounds check, then the read \<open>*(begin() + index)\<close> of the native
  array, whose content is the native layer's (\<open>memory N\<close>).
\<close>

definition device_list_at :: "native \<Rightarrow> device_list \<Rightarrow> nat \<Rightarrow> error + pointer" where
  "device_list_at N l index =
     (if index \<ge> device_list_size l then Inl (Out_of_range ''device_list::at'')
      else Inr (memory N (deviceList l) index))"

section \<open>Device handle\<close>

record device_handle =
  ptr :: pointer
  claimedInterfaces :: "int list"

text \<open>The default constructor, and the inherited constructor that adopts a raw handle.\<close>

definition device_handle_default :: device_handle where
  "device_handle_default = \<lparr>ptr = None, claimedInterfaces = []\<rparr>"

definition device_handle_adopt :: "pointer \<Rightarrow> device_handle" where
  "device_handle_adopt p = \<lparr>ptr = p, claimedInterfaces = []\<rparr>"

text \<open>
  The loop of \<open>reset\<close>: one checked invocation per recorded interface, with the
  non-throwing policy. The model keeps the exceptional exit of \<open>call_log_throw\<close> as a
  branch, so that "nothing is thrown" is a property to prove and not an assumption.
\<close>

fun release_all :: "native \<Rightarrow> pointer \<Rightarrow> int list \<Rightarrow> world \<Rightarrow> (error + unit) \<times> world" where
  "release_all N p [] t = (Inr (), t)"
| "release_all N p (interfaceNumber # rest) t =
     (case call_log_throw N MVLOG_ERROR False ''reset'' 298
             (Libusb_release_interface p interfaceNumber) t of
        (Inl e, t') \<Rightarrow> (Inl e, t')
      | (Inr rc, t') \<Rightarrow> release_all N p rest t')"

definition device_handle_reset ::
  "native \<Rightarrow> pointer \<Rightarrow> device_handle \<Rightarrow> world \<Rightarrow> (error + unit) \<times> device_handle \<times> world" where
  "device_handle_reset N p d t =
     (case release_all N (ptr d) (claimedInterfaces d) t of
        (Inl e, t') \<Rightarrow> (Inl e, d, t')
      | (Inr u, t') \<Rightarrow>
          (case base_reset Libusb_close p (ptr d) t' of
             (p', t'') \<Rightarrow> (Inr (), d\<lparr>ptr := p'\<rparr>, t'')))"

text \<open>
  \<open>~device_handle()\<close>: the body calls \<open>reset()\<close>; then the members are destroyed, then the
  base \<open>unique_ptr\<close>. The object is gone afterwards, so only the world is returned.
\<close>

definition device_handle_dtor :: "native \<Rightarrow> device_handle \<Rightarrow> world \<Rightarrow> (error + unit) \<times> world" where
  "device_handle_dtor N d t =
     (case device_handle_reset N None d t of
        (Inl e, d', t') \<Rightarrow> (Inl e, t')
      | (Inr u, d', t') \<Rightarrow> (Inr (), base_dtor Libusb_close (ptr d') t'))"

definition device_handle_release :: "device_handle \<Rightarrow> world \<Rightarrow> pointer \<times> device_handle \<times> world" where
  "device_handle_release d t =
     (let d1 = d\<lparr>claimedInterfaces := []\<rparr>;
          (p, owned) = base_release (ptr d1)
      in (p, d1\<lparr>ptr := owned\<rparr>, t))"

definition claim_interface ::
  "native \<Rightarrow> int \<Rightarrow> device_handle \<Rightarrow> world \<Rightarrow> (error + unit) \<times> device_handle \<times> world" where
  "claim_interface N interface_number d t =
     (if interface_number \<in> set (claimedInterfaces d) then (Inr (), d, t)
      else
        (case call_log_throw N MVLOG_ERROR True ''claim_interface'' 314
                (Libusb_claim_interface (ptr d) interface_number) t of
           (Inl e, t') \<Rightarrow> (Inl e, d, t')
         | (Inr rc, t') \<Rightarrow>
             (Inr (), d\<lparr>claimedInterfaces := claimedInterfaces d @ [interface_number]\<rparr>, t')))"

text \<open>\<open>erase(candidate)\<close> removes the element \<open>std::find\<close> found: the first occurrence.\<close>

definition release_interface ::
  "native \<Rightarrow> int \<Rightarrow> device_handle \<Rightarrow> world \<Rightarrow> (error + unit) \<times> device_handle \<times> world" where
  "release_interface N interface_number d t =
     (if interface_number \<notin> set (claimedInterfaces d) then (Inr (), d, t)
      else
        (case call_log_throw N MVLOG_ERROR True ''release_interface'' 323
                (Libusb_release_interface (ptr d) interface_number) t of
           (Inl e, t') \<Rightarrow> (Inl e, d, t')
         | (Inr rc, t') \<Rightarrow>
             (Inr (), d\<lparr>claimedInterfaces := remove1 interface_number (claimedInterfaces d)\<rparr>, t')))"

text \<open>
  Move construction and move assignment involve two objects, and move assignment
  compares their addresses, so both work on a store of handles indexed by address.
  \<open>WRAP_EXCHANGE<_base, _base>(other, {})\<close> takes the pointer out of \<open>other\<close> and leaves
  it null; assigning the result to the base of \<open>this\<close> is \<open>unique_ptr\<close>'s move
  assignment, that is \<open>reset\<close> of the base with that pointer.
\<close>

type_synonym handles = "nat \<Rightarrow> device_handle"

definition device_handle_move_ctor :: "nat \<Rightarrow> nat \<Rightarrow> handles \<Rightarrow> handles" where
  "device_handle_move_ctor this other H =
     (let taken = ptr (H other);
          H1 = H(other := (H other)\<lparr>ptr := None\<rparr>);
          claimed = claimedInterfaces (H1 other);
          H2 = H1(other := (H1 other)\<lparr>claimedInterfaces := []\<rparr>)
      in H2(this := \<lparr>ptr = taken, claimedInterfaces = claimed\<rparr>))"

definition device_handle_move_assign :: "nat \<Rightarrow> nat \<Rightarrow> handles \<Rightarrow> world \<Rightarrow> handles \<times> world" where
  "device_handle_move_assign this other H t =
     (if this \<noteq> other then
        (let taken = ptr (H other);
             H1 = H(other := (H other)\<lparr>ptr := None\<rparr>);
             (p', t1) = base_reset Libusb_close taken (ptr (H1 this)) t;
             H2 = H1(this := (H1 this)\<lparr>ptr := p'\<rparr>);
             claimed = claimedInterfaces (H2 other);
             H3 = H2(other := (H2 other)\<lparr>claimedInterfaces := []\<rparr>);
             H4 = H3(this := (H3 this)\<lparr>claimedInterfaces := claimed\<rparr>)
         in (H4, t1))
      else (H, t))"

section \<open>Usb device\<close>

record usb_device =
  dev :: pointer

text \<open>
  \<open>libusb_ref_device(p)\<close> returns its argument. The wrapper passes whatever pointer it was
  given, so the call is recorded with that pointer, null or not.
\<close>

definition libusb_ref_device :: "pointer \<Rightarrow> world \<Rightarrow> pointer \<times> world" where
  "libusb_ref_device p t = (p, t @ [Call (Libusb_ref_device p) 0])"

definition usb_device_ctor :: "pointer \<Rightarrow> world \<Rightarrow> usb_device \<times> world" where
  "usb_device_ctor p t = (case libusb_ref_device p t of (q, t') \<Rightarrow> (\<lparr>dev = q\<rparr>, t'))"

definition usb_device_dtor :: "usb_device \<Rightarrow> world \<Rightarrow> world" where
  "usb_device_dtor u t = base_dtor Libusb_unref_device (dev u) t"

definition usb_device_reset :: "pointer \<Rightarrow> usb_device \<Rightarrow> world \<Rightarrow> usb_device \<times> world" where
  "usb_device_reset p u t =
     (case libusb_ref_device p t of
        (q, t1) \<Rightarrow> (case base_reset Libusb_unref_device q (dev u) t1 of
                     (q', t2) \<Rightarrow> (u\<lparr>dev := q'\<rparr>, t2)))"


section \<open>What the native layer holds\<close>

text \<open>
  The native library counts references per device and grants interfaces per open
  channel. Both are read off the trace: a reference is added by \<open>libusb_ref_device\<close> and
  dropped by \<open>libusb_unref_device\<close>; an interface is held on a channel from a claim that
  returned a non-negative code until a release that returned a non-negative code, or
  until the channel is closed. \<open>c0\<close> is the count of the device and \<open>s0 a\<close> the set
  held on the channel at address \<open>a\<close> before the trace began. Nothing is held on
  \<open>nullptr\<close>.
\<close>

fun refcount_step :: "nat \<Rightarrow> int \<Rightarrow> event \<Rightarrow> int" where
  "refcount_step D c (Call (Libusb_ref_device p) rc) = (if p = Some D then c + 1 else c)"
| "refcount_step D c (Call (Libusb_unref_device p) rc) = (if p = Some D then c - 1 else c)"
| "refcount_step D c e = c"

definition refcount :: "int \<Rightarrow> nat \<Rightarrow> world \<Rightarrow> int" where
  "refcount c0 D t = foldl (refcount_step D) c0 t"

fun claimed_step :: "pointer \<Rightarrow> int set \<Rightarrow> event \<Rightarrow> int set" where
  "claimed_step h s (Call (Libusb_claim_interface p n) rc) =
     (if p = h \<and> rc \<ge> 0 then insert n s else s)"
| "claimed_step h s (Call (Libusb_release_interface p n) rc) =
     (if p = h \<and> rc \<ge> 0 then s - {n} else s)"
| "claimed_step h s (Call (Libusb_close p) rc) = (if p = h then {} else s)"
| "claimed_step h s e = s"

definition native_claimed :: "(nat \<Rightarrow> int set) \<Rightarrow> pointer \<Rightarrow> world \<Rightarrow> int set" where
  "native_claimed s0 h t = (case h of None \<Rightarrow> {} | Some a \<Rightarrow> foldl (claimed_step h) (s0 a) t)"

text \<open>
  The invariant of a device handle: every recorded interface is held on the owned
  channel.
\<close>

definition handle_inv :: "(nat \<Rightarrow> int set) \<Rightarrow> device_handle \<Rightarrow> world \<Rightarrow> bool" where
  "handle_inv s0 d t = (set (claimedInterfaces d) \<subseteq> native_claimed s0 (ptr d) t)"

section \<open>Sample native layers for concrete runs\<close>

text \<open>
  A native layer that answers \<open>c\<close> to the calls listed in \<open>bad\<close> and 0 to every other
  call, describes error codes by a few of the library's English texts, and hands out
  address 100 through out-pointers. The C++ runtime knows none of the codes.
\<close>

definition sample_strerror :: "int \<Rightarrow> string" where
  "sample_strerror c =
     (if c = 0 then ''Success''
      else if c = -1 then ''Input/Output Error''
      else if c = -3 then ''Access denied (insufficient permissions)''
      else if c = -4 then ''No such device (it may have been disconnected)''
      else ''Other error'')"

definition native_failing_on :: "native_call list \<Rightarrow> int \<Rightarrow> native" where
  "native_failing_on bad c =
     \<lparr>returns = (\<lambda>t call. if call \<in> set bad then c else 0),
      libusb_strerror = sample_strerror,
      out_pointer = (\<lambda>t call. Some 100),
      memory = (\<lambda>p i. None),
      category_message = (\<lambda>c. ''Unknown error'')\<rparr>"

text \<open>A store with a handle at address 1 and another at address 2.\<close>

definition two_handles :: handles where
  "two_handles = (\<lambda>a. \<lparr>ptr = None, claimedInterfaces = []\<rparr>)
     (1 := \<lparr>ptr = Some 10, claimedInterfaces = [4]\<rparr>, 2 := \<lparr>ptr = Some 20, claimedInterfaces = [0, 1]\<rparr>)"

section \<open>Traces\<close>

lemma calls_append [simp]: "calls (t @ u) = calls t @ calls u"
  by (simp add: calls_def)

lemma logged_append [simp]: "logged (t @ u) = logged t @ logged u"
  by (simp add: logged_def)

lemma calls_Nil [simp]: "calls [] = []"
  by (simp add: calls_def)

lemma calls_Cons [simp]: "calls (e # t) = event_calls e @ calls t"
  by (simp add: calls_def)

lemma logged_Nil [simp]: "logged [] = []"
  by (simp add: logged_def)

lemma logged_Cons [simp]: "logged (e # t) = event_logs e @ logged t"
  by (simp add: logged_def)

section \<open>Checked invocation: the call, log and throw protocol\<close>

lemma static_cast_int_of_int [simp]:
  "\<not> returns_ssize_t func \<Longrightarrow> static_cast_int func rcNum = rcNum"
  by (simp add: static_cast_int_def)


lemma call_log_throw_trace:
  "snd (call_log_throw N Loglevel Throw func_within line_number func t) =
     t @ Call func (returns N t func) #
       (if returns N t func < 0
        then [Log Loglevel func_within line_number
                (failure_message N func_within (static_cast_int func (returns N t func)))]
        else [])"
  by (cases Throw) (simp_all add: call_log_throw_def logprintf_def Let_def)

lemma call_log_throw_result:
  "fst (call_log_throw N Loglevel Throw func_within line_number func t) =
     (if returns N t func < 0 \<and> Throw
      then Inl (usb_error N (static_cast_int func (returns N t func)))
      else Inr (returns N t func))"
  by (cases Throw) (simp_all add: call_log_throw_def logprintf_def Let_def)




section \<open>Device list: bounds-checked access\<close>

text \<open>
  Claim C9. Bounds-checked access \<open>at(i)\<close> raises \<open>std::out_of_range\<close> exactly when
  \<open>i \<ge> size()\<close>, and returns the array element otherwise. A list enumerated from a
  context for which the native enumeration reports zero devices has size 0, \<open>empty()\<close>
  is true, and \<open>at(0)\<close> raises \<open>std::out_of_range\<close>.
\<close>

theorem device_list_at_bounds:
  "(device_list_at N l i = Inl (Out_of_range ''device_list::at'')) = (i \<ge> device_list_size l) \<and>
   (i < device_list_size l \<longrightarrow> device_list_at N l i = Inr (memory N (deviceList l) i)) \<and>
   (returns N t (Libusb_get_device_list ctx) = 0 \<longrightarrow>
      (case device_list_ctor N ctx t of
         (r, t') \<Rightarrow>
           (\<exists>l0. r = Inr l0 \<and> device_list_size l0 = 0 \<and> device_list_empty l0 \<and>
              device_list_at N l0 0 = Inl (Out_of_range ''device_list::at''))))"
  by (simp add: device_list_at_def device_list_size_def device_list_empty_def device_list_ctor_def
        call_log_throw_def Let_def)

text \<open>
  The theorem on a list of three devices at the indices 2 and 3, and on an enumeration
  that reports zero devices.
\<close>

theorem device_list_at_bounds_witness:
  "device_list_at (native_failing_on [] 0) \<lparr>countDevices = 3, deviceList = Some 100\<rparr> 2 = Inr None \<and>
   device_list_at (native_failing_on [] 0) \<lparr>countDevices = 3, deviceList = Some 100\<rparr> 3
     = Inl (Out_of_range ''device_list::at'') \<and>
   (case device_list_ctor (native_failing_on [] 0) (Some 1) [] of
      (r, t') \<Rightarrow> (\<exists>l0. r = Inr l0 \<and> device_list_size l0 = 0 \<and> device_list_empty l0 \<and>
              device_list_at (native_failing_on [] 0) l0 0 = Inl (Out_of_range ''device_list::at'')))"
  using device_list_at_bounds [where N = "native_failing_on [] 0"
          and l = "\<lparr>countDevices = 3, deviceList = Some 100\<rparr>" and i = 2 and t = "[]"
          and ctx = "Some 1"]
        device_list_at_bounds [where N = "native_failing_on [] 0"
          and l = "\<lparr>countDevices = 3, deviceList = Some 100\<rparr>" and i = 3 and t = "[]"
          and ctx = "Some 1"]
  by (simp add: native_failing_on_def device_list_size_def)

section \<open>Usb device: reference counting\<close>

lemma refcount_append [simp]: "refcount c0 D (t @ u) = refcount (refcount c0 D t) D u"
  by (simp add: refcount_def)

lemma refcount_Nil [simp]: "refcount c0 D [] = c0"
  by (simp add: refcount_def)

lemma refcount_Cons [simp]: "refcount c0 D (e # t) = refcount (refcount_step D c0 e) D t"
  by (simp add: refcount_def)

text \<open>
  Claim C8. For a usb device constructed from a raw identity \<open>D\<close>, the native reference
  count of \<open>D\<close> right after construction is exactly one greater than before, and after
  the destruction of the usb device it is exactly what it was before construction.
\<close>

theorem usb_device_refcount_roundtrip:
  "(case usb_device_ctor (Some D) t of
      (u, t1) \<Rightarrow>
        dev u = Some D \<and>
        refcount c0 D t1 = refcount c0 D t + 1 \<and>
        refcount c0 D (usb_device_dtor u t1) = refcount c0 D t)"
  by (simp add: usb_device_ctor_def libusb_ref_device_def usb_device_dtor_def base_dtor_def
        unique_resource_deleter_def)

text \<open>
  The theorem for the device at address 7, whose count was 1.
\<close>

theorem usb_device_refcount_roundtrip_witness:
  "refcount 1 7 (snd (usb_device_ctor (Some 7) [])) = 2 \<and>
   refcount 1 7 (usb_device_dtor (fst (usb_device_ctor (Some 7) [])) (snd (usb_device_ctor (Some 7) []))) = 1"
  using usb_device_refcount_roundtrip [where D = 7 and t = "[]" and ?c0.0 = 1]
  by (simp split: prod.splits)

text \<open>
  \<open>reset(p)\<close> makes the native reference call first and drops the old reference
  second, whatever \<open>p\<close> is; so resetting to the identity already held never takes the
  count below its starting value.
\<close>

lemma usb_device_reset_trace:
  "usb_device_reset p u t =
     (u\<lparr>dev := p\<rparr>,
      t @ Call (Libusb_ref_device p) 0 #
        (if dev u = None then [] else [Call (Libusb_unref_device (dev u)) 0]))"
  by (simp add: usb_device_reset_def libusb_ref_device_def base_reset_def unique_resource_deleter_def)

lemma usb_device_reset_same_no_drop:
  assumes "dev u = Some D" and "length t \<le> k"
  shows "refcount c0 D t \<le> refcount c0 D (take k (snd (usb_device_reset (Some D) u t)))"
proof -
  have "k = length t \<or> k = Suc (length t) \<or> Suc (Suc (length t)) \<le> k"
    using assms(2) by arith
  then show ?thesis
    using assms(1) by (auto simp add: usb_device_reset_trace)
qed

text \<open>
  Claim C7 says that \<open>reset(newRaw)\<close> takes the new reference only when \<open>newRaw\<close> is
  non-empty. The code has no such test: \<open>reset()\<close> with the default null argument on a
  device holding address 7 calls \<open>libusb_ref_device(nullptr)\<close>, then drops the reference
  to 7.
\<close>

theorem usb_device_reset_refs_null:
  "usb_device_reset None \<lparr>dev = Some 7\<rparr> [] =
     (\<lparr>dev = None\<rparr>, [Call (Libusb_ref_device None) 0, Call (Libusb_unref_device (Some 7)) 0])"
  by (simp add: usb_device_reset_def libusb_ref_device_def base_reset_def unique_resource_deleter_def)

section \<open>Device handle: cleanup\<close>

lemma release_all_never_throws: "fst (release_all N p ns t) = Inr ()"
proof (induction ns arbitrary: t)
  case Nil
  show ?case by simp
next
  case (Cons i rest)
  obtain r t' where c: "call_log_throw N MVLOG_ERROR False ''reset'' 298 (Libusb_release_interface p i) t = (r, t')"
    by (cases "call_log_throw N MVLOG_ERROR False ''reset'' 298 (Libusb_release_interface p i) t")
  have "r = Inr (returns N t (Libusb_release_interface p i))"
    using call_log_throw_result [of N MVLOG_ERROR False "''reset''" 298 "Libusb_release_interface p i" t] c
    by simp
  then show ?case using Cons.IH [of t'] c by simp
qed

lemma release_all_calls:
  "calls (snd (release_all N p ns t)) = calls t @ map (Libusb_release_interface p) ns"
proof (induction ns arbitrary: t)
  case Nil
  show ?case by simp
next
  case (Cons i rest)
  obtain r t' where c: "call_log_throw N MVLOG_ERROR False ''reset'' 298 (Libusb_release_interface p i) t = (r, t')"
    by (cases "call_log_throw N MVLOG_ERROR False ''reset'' 298 (Libusb_release_interface p i) t")
  have r: "r = Inr (returns N t (Libusb_release_interface p i))"
    using call_log_throw_result [of N MVLOG_ERROR False "''reset''" 298 "Libusb_release_interface p i" t] c
    by simp
  have "calls t' = calls t @ [Libusb_release_interface p i]"
    using call_log_throw_trace [of N MVLOG_ERROR False "''reset''" 298 "Libusb_release_interface p i" t] c
    by simp
  then show ?case using Cons.IH [of t'] c r by simp
qed

lemma device_handle_reset_result:
  "device_handle_reset N p d t =
     (Inr (), d\<lparr>ptr := p\<rparr>,
      (if ptr d \<noteq> None then snd (release_all N (ptr d) (claimedInterfaces d) t) @ [Call (Libusb_close (ptr d)) 0]
       else snd (release_all N (ptr d) (claimedInterfaces d) t)))"
proof -
  obtain r t' where c: "release_all N (ptr d) (claimedInterfaces d) t = (r, t')"
    by (cases "release_all N (ptr d) (claimedInterfaces d) t")
  have "r = Inr ()" using release_all_never_throws [of N "ptr d" "claimedInterfaces d" t] c by simp
  then show ?thesis using c
    by (cases "ptr d") (auto simp add: device_handle_reset_def base_reset_def unique_resource_deleter_def)
qed

lemma device_handle_dtor_result:
  "device_handle_dtor N d t =
     (Inr (),
      (if ptr d \<noteq> None then snd (release_all N (ptr d) (claimedInterfaces d) t) @ [Call (Libusb_close (ptr d)) 0]
       else snd (release_all N (ptr d) (claimedInterfaces d) t)))"
  by (simp add: device_handle_dtor_def device_handle_reset_result base_dtor_def)

lemma device_handle_dtor_empty:
  "ptr d = None \<Longrightarrow> claimedInterfaces d = [] \<Longrightarrow> device_handle_dtor N d t = (Inr (), t)"
  by (simp add: device_handle_dtor_result)

text \<open>
  \<open>reset\<close> and the destructor never raise; they release every recorded interface in
  the recorded order and then close a non-null channel. \<open>reset\<close> leaves the recorded
  list as it was.
\<close>

lemma device_handle_reset_never_throws: "fst (device_handle_reset N p d t) = Inr ()"
  by (simp add: device_handle_reset_result)

lemma device_handle_reset_calls:
  "calls (snd (snd (device_handle_reset N p d t))) =
     calls t @ map (Libusb_release_interface (ptr d)) (claimedInterfaces d) @
       (if ptr d = None then [] else [Libusb_close (ptr d)])"
  by (simp add: device_handle_reset_result release_all_calls)

lemma device_handle_reset_object:
  "fst (snd (device_handle_reset N p d t)) = d\<lparr>ptr := p\<rparr>"
  by (simp add: device_handle_reset_result)

lemma device_handle_dtor_never_throws: "fst (device_handle_dtor N d t) = Inr ()"
  by (simp add: device_handle_dtor_result)

lemma device_handle_dtor_calls:
  "calls (snd (device_handle_dtor N d t)) =
     calls t @ map (Libusb_release_interface (ptr d)) (claimedInterfaces d) @
       (if ptr d = None then [] else [Libusb_close (ptr d)])"
  by (simp add: device_handle_dtor_result release_all_calls)

text \<open>
  Claim C2 says that destruction and \<open>reset\<close> release each recorded interface, close
  the channel, and then clear the claimed set. \<open>reset\<close> does the first two and does not
  clear: on a handle for channel 1 with interface 0 recorded, \<open>reset()\<close> releases 0 and
  closes 1, and the handle still records 0 while owning nothing; destroying it then
  calls the native release of interface 0 on \<open>nullptr\<close>.
\<close>

theorem device_handle_reset_keeps_claimed:
  "device_handle_reset (native_failing_on [] 0) None \<lparr>ptr = Some 1, claimedInterfaces = [0]\<rparr> [] =
     (Inr (), \<lparr>ptr = None, claimedInterfaces = [0]\<rparr>,
      [Call (Libusb_release_interface (Some 1) 0) 0, Call (Libusb_close (Some 1)) 0]) \<and>
   claimedInterfaces (fst (snd (device_handle_reset (native_failing_on [] 0) None
       \<lparr>ptr = Some 1, claimedInterfaces = [0]\<rparr> []))) \<noteq> [] \<and>
   calls (snd (device_handle_dtor (native_failing_on [] 0) \<lparr>ptr = None, claimedInterfaces = [0]\<rparr> [])) =
     [Libusb_release_interface None 0]"
  by (simp add: device_handle_reset_result device_handle_dtor_result call_log_throw_def
        native_failing_on_def Let_def)

text \<open>
  Claim C3. Destroying a device handle whose claimed list is 1, 2, 3 (in that order)
  calls the native release of 1, of 2 and of 3 in that order, then closes the channel,
  and does not raise, whatever the native release calls return.
\<close>

theorem device_handle_dtor_123:
  "fst (device_handle_dtor N \<lparr>ptr = Some h, claimedInterfaces = [1, 2, 3]\<rparr> t) = Inr () \<and>
   calls (snd (device_handle_dtor N \<lparr>ptr = Some h, claimedInterfaces = [1, 2, 3]\<rparr> t)) =
     calls t @ [Libusb_release_interface (Some h) 1, Libusb_release_interface (Some h) 2,
                Libusb_release_interface (Some h) 3, Libusb_close (Some h)]"
  by (simp add: device_handle_dtor_result release_all_calls del: release_all.simps)

text \<open>
  The theorem on channel 5 with a native layer whose release of interface 2 fails
  with -1: the failure is logged at error severity, interface 3 is still released and
  the channel is closed.
\<close>

theorem device_handle_dtor_123_witness:
  "device_handle_dtor (native_failing_on [Libusb_release_interface (Some 5) 2] (-1))
      \<lparr>ptr = Some 5, claimedInterfaces = [1, 2, 3]\<rparr> [] =
     (Inr (),
      [Call (Libusb_release_interface (Some 5) 1) 0,
       Call (Libusb_release_interface (Some 5) 2) (-1),
       Log MVLOG_ERROR ''reset'' 298 ''dai::libusb failed reset(): Input/Output Error'',
       Call (Libusb_release_interface (Some 5) 3) 0,
       Call (Libusb_close (Some 5)) 0])"
  using device_handle_dtor_123 [where N = "native_failing_on [Libusb_release_interface (Some 5) 2] (-1)"
          and h = 5 and t = "[]"]
  by (simp add: device_handle_dtor_result call_log_throw_def native_failing_on_def Let_def logprintf_def
        failure_message_def sample_strerror_def)

text \<open>
  Claim C6. \<open>release()\<close> makes no native call, returns the raw channel handle, and
  leaves the handle with no channel and no recorded interface; destroying it afterwards
  makes no native call either, in whatever state the caller left the native layer.
\<close>

theorem device_handle_release_no_double_free:
  "(case device_handle_release d t of
      (p, d', t') \<Rightarrow>
        p = ptr d \<and> t' = t \<and> d' = \<lparr>ptr = None, claimedInterfaces = []\<rparr> \<and>
        (\<forall>N t''. device_handle_dtor N d' t'' = (Inr (), t'')))"
  by (simp add: device_handle_release_def base_release_def device_handle_dtor_empty)

text \<open>
  The theorem on a handle for channel 5 with two interfaces recorded, which the caller
  closes by hand after \<open>release()\<close>.
\<close>

theorem device_handle_release_no_double_free_witness:
  "device_handle_release \<lparr>ptr = Some 5, claimedInterfaces = [1, 2]\<rparr> [] =
     (Some 5, \<lparr>ptr = None, claimedInterfaces = []\<rparr>, []) \<and>
   device_handle_dtor (native_failing_on [] 0)
     (fst (snd (device_handle_release \<lparr>ptr = Some 5, claimedInterfaces = [1, 2]\<rparr> [])))
     [Call (Libusb_close (Some 5)) 0] = (Inr (), [Call (Libusb_close (Some 5)) 0])"
  using device_handle_release_no_double_free [where d = "\<lparr>ptr = Some 5, claimedInterfaces = [1, 2]\<rparr>" and t = "[]"]
  by (auto split: prod.splits)

section \<open>Device handle: move assignment\<close>

lemma device_handle_move_assign_self: "device_handle_move_assign a a H t = (H, t)"
  by (simp add: device_handle_move_assign_def)

text \<open>
  Claim C10. Move assignment between two device handles closes the channel the target
  owned (if any) and makes no native release call for the interfaces the target had
  recorded; the target takes over the channel and the claimed list of the source; the
  source is left with no channel and an empty claimed list, so destroying it makes no
  native call. No other handle changes.
\<close>

theorem device_handle_move_assign_takes_over:
  "this \<noteq> other \<Longrightarrow>
   (case device_handle_move_assign this other H t of
      (H', t') \<Rightarrow>
        t' = (if ptr (H this) = None then t else t @ [Call (Libusb_close (ptr (H this))) 0]) \<and>
        H' this = H other \<and>
        H' other = \<lparr>ptr = None, claimedInterfaces = []\<rparr> \<and>
        (\<forall>a. a \<noteq> this \<and> a \<noteq> other \<longrightarrow> H' a = H a) \<and>
        (\<forall>N t''. device_handle_dtor N (H' other) t'' = (Inr (), t'')))"
  by (simp add: device_handle_move_assign_def base_reset_def unique_resource_deleter_def Let_def
        device_handle_dtor_empty)

text \<open>
  The theorem on the store \<open>two_handles\<close>, assigning the handle at address 2 to the
  handle at address 1.
\<close>

theorem device_handle_move_assign_takes_over_witness:
  "(1::nat) \<noteq> 2 \<and>
   snd (device_handle_move_assign 1 2 two_handles []) = [Call (Libusb_close (Some 10)) 0] \<and>
   fst (device_handle_move_assign 1 2 two_handles []) 1 = \<lparr>ptr = Some 20, claimedInterfaces = [0, 1]\<rparr> \<and>
   fst (device_handle_move_assign 1 2 two_handles []) 2 = \<lparr>ptr = None, claimedInterfaces = []\<rparr> \<and>
   device_handle_dtor (native_failing_on [] 0) (fst (device_handle_move_assign 1 2 two_handles []) 2) []
     = (Inr (), [])"
proof -
  have h: "(1::nat) \<noteq> 2" by simp
  show ?thesis
    using h device_handle_move_assign_takes_over [OF h, where H = two_handles and t = "[]"]
    by (auto simp add: two_handles_def split: prod.splits)
qed

section \<open>Device handle: claiming and releasing interfaces\<close>

text \<open>
  Claim C4. \<open>claim_interface(n)\<close> does nothing when \<open>n\<close> is already recorded. Otherwise
  it makes the native claim call once; on a negative code it raises a \<open>usb_error\<close> and
  leaves the handle as it was; on success it records \<open>n\<close>. Hence two calls in a row on
  a handle that had not recorded \<open>n\<close> make the native claim call exactly once, and the
  claimed list then holds \<open>n\<close> exactly once.
\<close>

theorem claim_interface_once:
  "(n \<in> set (claimedInterfaces d) \<longrightarrow> claim_interface N n d t = (Inr (), d, t)) \<and>
   (n \<notin> set (claimedInterfaces d) \<longrightarrow>
      (case claim_interface N n d t of
         (r, d', t') \<Rightarrow>
           calls t' = calls t @ [Libusb_claim_interface (ptr d) n] \<and>
           (returns N t (Libusb_claim_interface (ptr d) n) < 0 \<longrightarrow>
              r = Inl (usb_error N (returns N t (Libusb_claim_interface (ptr d) n))) \<and> d' = d) \<and>
           (returns N t (Libusb_claim_interface (ptr d) n) \<ge> 0 \<longrightarrow>
              r = Inr () \<and> d' = d\<lparr>claimedInterfaces := claimedInterfaces d @ [n]\<rparr> \<and>
              (case claim_interface N n d' t' of
                 (r2, d2, t2) \<Rightarrow>
                   r2 = Inr () \<and> d2 = d' \<and> t2 = t' \<and>
                   calls t2 = calls t @ [Libusb_claim_interface (ptr d) n] \<and>
                   count_list (claimedInterfaces d2) n = 1))))"
proof -
  let ?c = "Libusb_claim_interface (ptr d) n"
  obtain r t' where c: "call_log_throw N MVLOG_ERROR True ''claim_interface'' 314 ?c t = (r, t')"
    by (cases "call_log_throw N MVLOG_ERROR True ''claim_interface'' 314 ?c t")
  have r: "r = (if returns N t ?c < 0 then Inl (usb_error N (returns N t ?c)) else Inr (returns N t ?c))"
    using call_log_throw_result [of N MVLOG_ERROR True "''claim_interface''" 314 ?c t] c by simp
  have t': "calls t' = calls t @ [?c]"
    using call_log_throw_trace [of N MVLOG_ERROR True "''claim_interface''" 314 ?c t] c by simp
  have cnt: "n \<notin> set (claimedInterfaces d) \<Longrightarrow> count_list (claimedInterfaces d @ [n]) n = 1"
    by (simp add: count_list_0_iff)
  show ?thesis
    using c r t' cnt by (simp add: claim_interface_def)
qed

text \<open>
  The theorem on channel 5: interface 0 already recorded; the native claim failing
  with -4; and two successful calls in a row.
\<close>

theorem claim_interface_once_witness:
  "claim_interface (native_failing_on [] 0) 0 \<lparr>ptr = Some 5, claimedInterfaces = [0]\<rparr> [] =
     (Inr (), \<lparr>ptr = Some 5, claimedInterfaces = [0]\<rparr>, []) \<and>
   fst (claim_interface (native_failing_on [Libusb_claim_interface (Some 5) 0] (-4)) 0
          \<lparr>ptr = Some 5, claimedInterfaces = []\<rparr> []) =
     Inl (Usb_error (-4) ''No such device (it may have been disconnected)'') \<and>
   fst (snd (claim_interface (native_failing_on [Libusb_claim_interface (Some 5) 0] (-4)) 0
          \<lparr>ptr = Some 5, claimedInterfaces = []\<rparr> [])) = \<lparr>ptr = Some 5, claimedInterfaces = []\<rparr> \<and>
   (case claim_interface (native_failing_on [] 0) 0 \<lparr>ptr = Some 5, claimedInterfaces = []\<rparr> [] of
      (r, d', t') \<Rightarrow>
        r = Inr () \<and> d' = \<lparr>ptr = Some 5, claimedInterfaces = [0]\<rparr> \<and>
        (case claim_interface (native_failing_on [] 0) 0 d' t' of
           (r2, d2, t2) \<Rightarrow>
             r2 = Inr () \<and> calls t2 = [Libusb_claim_interface (Some 5) 0] \<and>
             count_list (claimedInterfaces d2) 0 = 1))"
  using claim_interface_once [where N = "native_failing_on [] 0" and n = 0
          and d = "\<lparr>ptr = Some 5, claimedInterfaces = [0]\<rparr>" and t = "[]"]
        claim_interface_once [where N = "native_failing_on [Libusb_claim_interface (Some 5) 0] (-4)" and n = 0
          and d = "\<lparr>ptr = Some 5, claimedInterfaces = []\<rparr>" and t = "[]"]
        claim_interface_once [where N = "native_failing_on [] 0" and n = 0
          and d = "\<lparr>ptr = Some 5, claimedInterfaces = []\<rparr>" and t = "[]"]
  by (auto simp add: native_failing_on_def usb_error_def sample_strerror_def split: prod.splits)

text \<open>
  Claiming and releasing keep the claimed list free of repetitions, and keep the
  invariant of a handle that owns a channel; \<open>release()\<close> establishes the invariant;
  releasing an interface that is not recorded does nothing. Moving a handle carries the
  invariant over to the target, provided the two handles do not own the same channel.
\<close>

lemma native_claimed_snoc:
  "native_claimed s0 (Some a) (t @ [e]) = claimed_step (Some a) (native_claimed s0 (Some a) t) e"
  by (simp add: native_claimed_def)

lemma native_claimed_None [simp]: "native_claimed s0 None t = {}"
  by (simp add: native_claimed_def)

lemma claim_interface_distinct:
  "distinct (claimedInterfaces d) \<Longrightarrow>
   distinct (claimedInterfaces (fst (snd (claim_interface N n d t))))"
  by (cases "call_log_throw N MVLOG_ERROR True ''claim_interface'' 314
               (Libusb_claim_interface (ptr d) n) t")
     (auto simp add: claim_interface_def split: sum.splits)

lemma release_interface_distinct:
  "distinct (claimedInterfaces d) \<Longrightarrow>
   distinct (claimedInterfaces (fst (snd (release_interface N n d t))))"
  by (cases "call_log_throw N MVLOG_ERROR True ''release_interface'' 323
               (Libusb_release_interface (ptr d) n) t")
     (auto simp add: release_interface_def split: sum.splits)

lemma claim_interface_preserves_inv:
  assumes "handle_inv s0 d t" and "ptr d = Some a"
  shows "handle_inv s0 (fst (snd (claim_interface N n d t))) (snd (snd (claim_interface N n d t)))"
proof (cases "n \<in> set (claimedInterfaces d)")
  case True
  then show ?thesis using assms by (simp add: claim_interface_def)
next
  case False
  let ?c = "Libusb_claim_interface (ptr d) n"
  obtain r t' where c: "call_log_throw N MVLOG_ERROR True ''claim_interface'' 314 ?c t = (r, t')"
    by (cases "call_log_throw N MVLOG_ERROR True ''claim_interface'' 314 ?c t")
  have r: "r = (if returns N t ?c < 0 then Inl (usb_error N (returns N t ?c)) else Inr (returns N t ?c))"
    using call_log_throw_result [of N MVLOG_ERROR True "''claim_interface''" 314 ?c t] c by simp
  have t': "t' = t @ Call ?c (returns N t ?c) #
       (if returns N t ?c < 0
        then [Log MVLOG_ERROR ''claim_interface'' 314 (failure_message N ''claim_interface'' (returns N t ?c))]
        else [])"
    using call_log_throw_trace [of N MVLOG_ERROR True "''claim_interface''" 314 ?c t] c by simp
  show ?thesis
    using False assms c r t'
    by (auto simp add: claim_interface_def handle_inv_def native_claimed_def)
qed

lemma release_interface_preserves_inv:
  assumes "handle_inv s0 d t" and "distinct (claimedInterfaces d)" and "ptr d = Some a"
  shows "handle_inv s0 (fst (snd (release_interface N n d t))) (snd (snd (release_interface N n d t)))"
proof (cases "n \<in> set (claimedInterfaces d)")
  case False
  then show ?thesis using assms by (simp add: release_interface_def)
next
  case True
  let ?c = "Libusb_release_interface (ptr d) n"
  obtain r t' where c: "call_log_throw N MVLOG_ERROR True ''release_interface'' 323 ?c t = (r, t')"
    by (cases "call_log_throw N MVLOG_ERROR True ''release_interface'' 323 ?c t")
  have r: "r = (if returns N t ?c < 0 then Inl (usb_error N (returns N t ?c)) else Inr (returns N t ?c))"
    using call_log_throw_result [of N MVLOG_ERROR True "''release_interface''" 323 ?c t] c by simp
  have t': "t' = t @ Call ?c (returns N t ?c) #
       (if returns N t ?c < 0
        then [Log MVLOG_ERROR ''release_interface'' 323 (failure_message N ''release_interface'' (returns N t ?c))]
        else [])"
    using call_log_throw_trace [of N MVLOG_ERROR True "''release_interface''" 323 ?c t] c by simp
  show ?thesis
    using True assms c r t'
    by (auto simp add: release_interface_def handle_inv_def native_claimed_def)
qed

lemma release_interface_unclaimed_noop:
  "n \<notin> set (claimedInterfaces d) \<Longrightarrow> release_interface N n d t = (Inr (), d, t)"
  by (simp add: release_interface_def)

lemma device_handle_release_inv:
  "handle_inv s0 (fst (snd (device_handle_release d t))) (snd (snd (device_handle_release d t)))"
  by (simp add: device_handle_release_def base_release_def handle_inv_def)

lemma device_handle_move_ctor_inv:
  assumes "this \<noteq> other" and "handle_inv s0 (H other) t"
  shows "handle_inv s0 (device_handle_move_ctor this other H this) t \<and>
         handle_inv s0 (device_handle_move_ctor this other H other) t"
  using assms by (simp add: device_handle_move_ctor_def Let_def handle_inv_def)

lemma native_claimed_close_other:
  "q \<noteq> h \<Longrightarrow> native_claimed s0 h (t @ [Call (Libusb_close q) rc]) = native_claimed s0 h t"
  by (cases h) (simp_all add: native_claimed_def)

lemma device_handle_move_assign_inv:
  assumes "this \<noteq> other" and "handle_inv s0 (H other) t" and "ptr (H this) \<noteq> ptr (H other)"
  shows "handle_inv s0 (fst (device_handle_move_assign this other H t) this)
           (snd (device_handle_move_assign this other H t)) \<and>
         handle_inv s0 (fst (device_handle_move_assign this other H t) other)
           (snd (device_handle_move_assign this other H t))"
  using assms
  by (simp add: device_handle_move_assign_def base_reset_def unique_resource_deleter_def Let_def
        handle_inv_def native_claimed_close_other)

text \<open>
  Claim C1 says that every operation keeps the recorded claimed set within the
  interfaces held natively on the owned channel. \<open>reset\<close> to a new raw handle does not:
  after adopting channel 1 and claiming interface 0, the invariant holds; after
  \<open>reset\<close> to channel 2 the handle owns channel 2 and still records interface 0, which
  is not held on channel 2.
\<close>

theorem device_handle_reset_breaks_inv:
  "(case claim_interface (native_failing_on [] 0) 0 (device_handle_adopt (Some 1)) [] of
      (r1, d1, t1) \<Rightarrow>
        r1 = Inr () \<and> handle_inv (\<lambda>a. {}) d1 t1 \<and>
        (case device_handle_reset (native_failing_on [] 0) (Some 2) d1 t1 of
           (r2, d2, t2) \<Rightarrow>
             r2 = Inr () \<and> ptr d2 = Some 2 \<and> claimedInterfaces d2 = [0] \<and>
             native_claimed (\<lambda>a. {}) (ptr d2) t2 = {} \<and>
             \<not> handle_inv (\<lambda>a. {}) d2 t2))"
  by (simp add: claim_interface_def device_handle_adopt_def call_log_throw_def native_failing_on_def
        Let_def device_handle_reset_def base_reset_def unique_resource_deleter_def handle_inv_def
        native_claimed_def)

end
